theory Spec2Isabelle
  imports Main "HOL-Library.Word" "HOL-Library.Signed_Division"
begin

section \<open>Machine types of the Arduino Uno sketch\<close>

text \<open>
  The sketch \<^verbatim>\<open>room_light_controller.ino\<close> targets the Arduino Uno (AVR):
  \<^verbatim>\<open>unsigned long\<close> is 32 bits wide and wraps around, \<^verbatim>\<open>int\<close> is 16 bits
  wide and is compared as a signed number. A pin that reads \<^verbatim>\<open>LOW\<close> is
  "active"; each \<^verbatim>\<open>digitalRead(PIN) == LOW\<close> of the source is one boolean of
  a pin sample here.
\<close>

type_synonym u32 = "32 word"
type_synonym i16 = "16 word"

record Config =
  timeout :: u32
  debounceDelay :: u32
  btnDebounce :: u32
  maxPersons :: i16
  emergencyOverride :: bool

datatype SensorState = IDLE | IR1_DETECTED | IR2_DETECTED | ENTRY_DETECTED | EXIT_DETECTED

text \<open>One sample of the five digital inputs (\<open>True\<close> is \<^verbatim>\<open>LOW\<close>, that is, active).\<close>

record pins =
  ir1 :: bool
  ir2 :: bool
  plusBtn :: bool
  resetBtn :: bool
  emergency :: bool

text \<open>
  Everything the sketch does to the outside world, in the order it does it: calls to
  the display, the serial line, the relay pin, the EEPROM, and the blocking
  \<^verbatim>\<open>delay\<close>.
\<close>

datatype effect =
    LcdClear
  | LcdSetCursor nat nat
  | LcdPrint string
  | LcdPrintU32 u32
  | LcdPrintInt i16
  | SerialPrint string
  | SerialPrintln string
  | SerialPrintlnInt i16
  | Delay nat
  | RelayWrite bool
  | EepromPut Config

text \<open>
  The globals of the sketch and the function-local \<^verbatim>\<open>static\<close> variables, with the
  relay level, the record stored in the EEPROM and the trace of effects. The globals
  \<^verbatim>\<open>configValue\<close>, \<^verbatim>\<open>lastPlusBtnState\<close> and \<^verbatim>\<open>lastResetBtnState\<close> are never
  read or written by any function and are left out. \<open>healthInit\<close> records that the
  statics of \<^verbatim>\<open>checkSensorHealth\<close> have been initialised by its first call.
\<close>

record state =
  config :: Config
  personCount :: i16
  currentState :: SensorState
  stateTime :: u32
  lastSensorActivity :: u32
  lastEmergencyCheck :: u32
  ir1Stuck :: bool
  ir2Stuck :: bool
  configMode :: bool
  configStartTime :: u32
  configParam :: i16
  configModeEntered :: bool
  lastResetBtnTime :: u32
  lastPlusBtnTime :: u32
  bothPressed :: bool
  pressStartTime :: u32
  exitPressed :: bool
  exitPressTime :: u32
  healthInit :: bool
  lastIr1State :: bool
  lastIr2State :: bool
  ir1ChangeTime :: u32
  ir2ChangeTime :: u32
  lastPlusTime :: u32
  lastResetTime :: u32
  lastDisplayUpdate :: u32
  relay :: bool
  eeprom :: "Config option"
  trace :: "effect list"

section \<open>Display, relay and store\<close>

definition emit :: "effect list \<Rightarrow> state \<Rightarrow> state" where
  "emit es s = s\<lparr>trace := trace s @ es\<rparr>"

definition saveConfiguration :: "state \<Rightarrow> state" where
  "saveConfiguration s = emit [EepromPut (config s)] (s\<lparr>eeprom := Some (config s)\<rparr>)"

definition displayEffects :: "state \<Rightarrow> effect list" where
  "displayEffects s =
     [LcdClear, LcdSetCursor 0 0, LcdPrint ''Persons: '', LcdPrintInt (personCount s),
      LcdSetCursor 0 1]
     @ (if emergencyOverride (config s) then [LcdPrint ''Light: EMER ON'']
        else [LcdPrint ''Light: '',
              if 0 <s personCount s then LcdPrint ''ON '' else LcdPrint ''OFF''])
     @ (if ir1Stuck s \<or> ir2Stuck s then [LcdSetCursor 12 0, LcdPrint ''ERR''] else [])"

definition updateDisplay :: "state \<Rightarrow> state" where
  "updateDisplay s = emit (displayEffects s) s"

definition statusEffects :: "string \<Rightarrow> effect list" where
  "statusEffects status =
     [LcdSetCursor 13 0, LcdPrint status, Delay 500, LcdSetCursor 13 0, LcdPrint ''   '']"

definition showStatus :: "string \<Rightarrow> state \<Rightarrow> state" where
  "showStatus status s = emit (statusEffects status) s"

definition errorEffects :: "string \<Rightarrow> effect list" where
  "errorEffects err =
     [LcdClear, LcdPrint ''ERROR: '', LcdPrint err, LcdSetCursor 0 1,
      LcdPrint ''Check sensors'', Delay 2000]"

definition showError :: "string \<Rightarrow> state \<Rightarrow> state" where
  "showError err s = updateDisplay (emit (errorEffects err) s)"

definition digitalWriteRelay :: "bool \<Rightarrow> state \<Rightarrow> state" where
  "digitalWriteRelay lvl s = emit [RelayWrite lvl] (s\<lparr>relay := lvl\<rparr>)"

definition updateLight :: "state \<Rightarrow> state" where
  "updateLight s =
     (if emergencyOverride (config s) then digitalWriteRelay True s
      else if 0 <s personCount s then digitalWriteRelay True s
      else digitalWriteRelay False s)"

definition showConfigMode :: "state \<Rightarrow> state" where
  "showConfigMode s =
     emit [LcdClear, LcdPrint ''CONFIG MODE'', LcdSetCursor 0 1, LcdPrint ''Timeout: '',
           LcdPrintU32 (timeout (config s)), LcdPrint ''ms''] s"

definition showEmergencyStatus :: "state \<Rightarrow> state" where
  "showEmergencyStatus s =
     emit [LcdClear, LcdPrint ''EMERGENCY MODE'', LcdSetCursor 0 1,
           LcdPrint ''Light: FORCE ON''] s"

definition updateConfigDisplay :: "state \<Rightarrow> state" where
  "updateConfigDisplay s =
     emit ((LcdClear #
            (if configParam s = 0 then
               [LcdPrint ''Timeout: '', LcdPrintU32 (timeout (config s)), LcdPrint ''ms'']
             else if configParam s = 1 then
               [LcdPrint ''Debounce: '', LcdPrintU32 (debounceDelay (config s)), LcdPrint ''ms'']
             else if configParam s = 2 then
               [LcdPrint ''Max Persons: '', LcdPrintInt (maxPersons (config s))]
             else []))
           @ [LcdSetCursor 0 1, LcdPrint ''R:param +:value'']) s"

section \<open>Configuration session\<close>

definition checkConfigurationMode :: "pins \<Rightarrow> u32 \<Rightarrow> state \<Rightarrow> state" where
  "checkConfigurationMode p currentTime s =
     (if plusBtn p \<and> resetBtn p then
        (if \<not> bothPressed s then s\<lparr>pressStartTime := currentTime, bothPressed := True\<rparr>
         else if currentTime - pressStartTime s > 3000 then
           showConfigMode
             (s\<lparr>configMode := True, configModeEntered := True,
                configStartTime := currentTime, configParam := 0\<rparr>)
         else s)
      else s\<lparr>bothPressed := False\<rparr>)"

text \<open>
  \<^verbatim>\<open>config.maxPersons += 1\<close> is a 16-bit signed addition; it is modelled as the
  wrapping addition of the AVR target.
\<close>

definition adjustConfigValue :: "state \<Rightarrow> state" where
  "adjustConfigValue s =
     (let c = config s in
      if configParam s = 0 then
        (let t = timeout c + 100 in
         s\<lparr>config := c\<lparr>timeout := (if t > 10000 then 100 else t)\<rparr>\<rparr>)
      else if configParam s = 1 then
        (let d = debounceDelay c + 50 in
         s\<lparr>config := c\<lparr>debounceDelay := (if d > 1000 then 50 else d)\<rparr>\<rparr>)
      else if configParam s = 2 then
        (let m = maxPersons c + 1 in
         s\<lparr>config := c\<lparr>maxPersons := (if 200 <s m then 1 else m)\<rparr>\<rparr>)
      else s)"

text \<open>C's remainder on \<^verbatim>\<open>int\<close> truncates towards zero.\<close>

definition nextParam :: "i16 \<Rightarrow> i16" where
  "nextParam p = word_of_int (sint (p + 1) smod 3)"

definition handleConfigurationMode :: "pins \<Rightarrow> u32 \<Rightarrow> state \<Rightarrow> state" where
  "handleConfigurationMode p currentTime s =
     (let both = plusBtn p \<and> resetBtn p;
          exitNow = both \<and> exitPressed s
                    \<and> currentTime - exitPressTime s \<ge> 500
                    \<and> currentTime - exitPressTime s < 2000;
          s1 = (if both then
                  (if \<not> exitPressed s then s\<lparr>exitPressTime := currentTime, exitPressed := True\<rparr>
                   else s)
                else s\<lparr>exitPressed := False\<rparr>)
      in
      if exitNow then updateDisplay (saveConfiguration (s1\<lparr>configMode := False\<rparr>))
      else if currentTime - configStartTime s1 > 30000 then
        updateDisplay (saveConfiguration (s1\<lparr>configMode := False\<rparr>))
      else
        (let s2 = (if resetBtn p \<and> currentTime - lastResetBtnTime s1 > btnDebounce (config s1) then
                     updateConfigDisplay
                       (s1\<lparr>configParam := nextParam (configParam s1),
                           lastResetBtnTime := currentTime\<rparr>)
                   else s1)
         in
         if plusBtn p \<and> currentTime - lastPlusBtnTime s2 > btnDebounce (config s2) then
           updateConfigDisplay ((saveConfiguration (adjustConfigValue s2))\<lparr>lastPlusBtnTime := currentTime\<rparr>)
         else s2))"

section \<open>Emergency override and sensor health\<close>

definition checkEmergencyOverride :: "pins \<Rightarrow> u32 \<Rightarrow> state \<Rightarrow> state" where
  "checkEmergencyOverride p currentTime s =
     (if currentTime - lastEmergencyCheck s > 100 then
        (let s1 = (if emergency p then
                     showEmergencyStatus
                       (digitalWriteRelay True
                          (s\<lparr>config := (config s)\<lparr>emergencyOverride := True\<rparr>\<rparr>))
                   else if emergencyOverride (config s) then
                     updateDisplay
                       (updateLight (s\<lparr>config := (config s)\<lparr>emergencyOverride := False\<rparr>\<rparr>))
                   else s)
         in s1\<lparr>lastEmergencyCheck := currentTime\<rparr>)
      else s)"

definition checkSensorHealth :: "pins \<Rightarrow> u32 \<Rightarrow> state \<Rightarrow> state" where
  "checkSensorHealth p currentTime s0 =
     (let s = (if healthInit s0 then s0
               else s0\<lparr>healthInit := True, lastIr1State := ir1 p, lastIr2State := ir2 p,
                       ir1ChangeTime := currentTime, ir2ChangeTime := currentTime\<rparr>);
          s1 = (if ir1 p = lastIr1State s then
                  (if currentTime - ir1ChangeTime s > 60000 \<and> \<not> ir1Stuck s then
                     showError ''IR1 STUCK'' (s\<lparr>ir1Stuck := True\<rparr>)
                   else s)
                else s\<lparr>ir1ChangeTime := currentTime, ir1Stuck := False\<rparr>);
          s2 = (if ir2 p = lastIr2State s1 then
                  (if currentTime - ir2ChangeTime s1 > 60000 \<and> \<not> ir2Stuck s1 then
                     showError ''IR2 STUCK'' (s1\<lparr>ir2Stuck := True\<rparr>)
                   else s1)
                else s1\<lparr>ir2ChangeTime := currentTime, ir2Stuck := False\<rparr>);
          s3 = s2\<lparr>lastIr1State := ir1 p, lastIr2State := ir2 p\<rparr>
      in
      if currentTime - lastSensorActivity s3 > 300000 \<and> 0 <s personCount s3 then
        showError ''NO ACTIVITY'' s3
      else s3)"

section \<open>Direction detection and manual buttons\<close>

definition personEntered :: "state \<Rightarrow> state" where
  "personEntered s =
     (let s1 = updateLight (showStatus ''IN'' (s\<lparr>personCount := personCount s + 1\<rparr>))
      in emit [SerialPrint ''Person Entered! Count: '', SerialPrintlnInt (personCount s1)] s1)"

definition personExited :: "state \<Rightarrow> state" where
  "personExited s =
     (let s1 = updateLight (showStatus ''OUT'' (s\<lparr>personCount := personCount s - 1\<rparr>))
      in emit [SerialPrint ''Person Exited! Count: '', SerialPrintlnInt (personCount s1)] s1)"

definition handleDirectionDetection :: "bool \<Rightarrow> bool \<Rightarrow> u32 \<Rightarrow> state \<Rightarrow> state" where
  "handleDirectionDetection ir1State ir2State currentTime s =
     (case currentState s of
        IDLE \<Rightarrow>
          (if ir1State then s\<lparr>currentState := IR1_DETECTED, stateTime := currentTime\<rparr>
           else if ir2State then s\<lparr>currentState := IR2_DETECTED, stateTime := currentTime\<rparr>
           else s)
      | IR1_DETECTED \<Rightarrow>
          (if ir2State then
             (let s1 = (if currentTime - stateTime s < timeout (config s) then
                          (if personCount s <s maxPersons (config s) then personEntered s
                           else showError ''MAX PERSONS'' s)
                        else s)
              in s1\<lparr>currentState := IDLE\<rparr>)
           else if currentTime - stateTime s > timeout (config s) then s\<lparr>currentState := IDLE\<rparr>
           else s)
      | IR2_DETECTED \<Rightarrow>
          (if ir1State then
             (let s1 = (if currentTime - stateTime s < timeout (config s) then
                          (if 0 <s personCount s then personExited s else s)
                        else s)
              in s1\<lparr>currentState := IDLE\<rparr>)
           else if currentTime - stateTime s > timeout (config s) then s\<lparr>currentState := IDLE\<rparr>
           else s)
      | ENTRY_DETECTED \<Rightarrow> s
      | EXIT_DETECTED \<Rightarrow> s)"

definition manualIncrement :: "state \<Rightarrow> state" where
  "manualIncrement s =
     (let s1 = updateLight (showStatus ''MANUAL'' (s\<lparr>personCount := personCount s + 1\<rparr>))
      in emit [SerialPrint ''+1 Button Pressed! Count: '', SerialPrintlnInt (personCount s1)] s1)"

definition manualReset :: "state \<Rightarrow> state" where
  "manualReset s =
     emit [SerialPrintln ''Reset Button Pressed! Count set to 1'']
       (updateLight (showStatus ''RESET'' (s\<lparr>personCount := 1\<rparr>)))"

definition handleButtons :: "bool \<Rightarrow> bool \<Rightarrow> u32 \<Rightarrow> state \<Rightarrow> state" where
  "handleButtons plusBtnState resetBtnState currentTime s =
     (let s1 = (if plusBtnState \<and> currentTime - lastPlusTime s > btnDebounce (config s) then
                  (if personCount s <s maxPersons (config s) then manualIncrement s
                   else showError ''MAX PERSONS'' s)\<lparr>lastPlusTime := currentTime\<rparr>
                else s)
      in
      if resetBtnState \<and> currentTime - lastResetTime s1 > btnDebounce (config s1) then
        (manualReset s1)\<lparr>lastResetTime := currentTime\<rparr>
      else s1)"

section \<open>The main loop\<close>

text \<open>
  One iteration of \<^verbatim>\<open>loop()\<close>. \<open>currentTime\<close> is the value of \<^verbatim>\<open>millis()\<close> read at
  its start; each function that reads the pins gets the sample taken when it runs.
\<close>

record samples =
  atCheckConfig :: pins
  atSession :: pins
  atEmergency :: pins
  atHealth :: pins
  atLoop :: pins

definition steady :: "pins \<Rightarrow> samples" where
  "steady p = \<lparr>atCheckConfig = p, atSession = p, atEmergency = p, atHealth = p, atLoop = p\<rparr>"

definition loop :: "u32 \<Rightarrow> samples \<Rightarrow> state \<Rightarrow> state" where
  "loop currentTime rd s0 =
     (let s1 = checkConfigurationMode (atCheckConfig rd) currentTime s0 in
      if configMode s1 then handleConfigurationMode (atSession rd) currentTime s1
      else
        (let s2 = checkEmergencyOverride (atEmergency rd) currentTime s1;
             s3 = checkSensorHealth (atHealth rd) currentTime s2;
             ir1State = ir1 (atLoop rd);
             ir2State = ir2 (atLoop rd);
             plusBtnState = plusBtn (atLoop rd);
             resetBtnState = resetBtn (atLoop rd);
             s4 = (if ir1State \<or> ir2State then s3\<lparr>lastSensorActivity := currentTime\<rparr> else s3);
             s5 = handleDirectionDetection ir1State ir2State currentTime s4;
             s6 = handleButtons plusBtnState resetBtnState currentTime s5;
             s7 = (if currentTime - lastDisplayUpdate s6 > 500 then
                     (updateDisplay s6)\<lparr>lastDisplayUpdate := currentTime\<rparr>
                   else s6)
         in emit [Delay 10] s7))"

text \<open>The loop run over a list of (time, samples) ticks, oldest first.\<close>

fun run :: "(u32 \<times> samples) list \<Rightarrow> state \<Rightarrow> state" where
  "run [] s = s"
| "run ((t, rd) # ticks) s = run ticks (loop t rd s)"

section \<open>Initial state and the inputs of the examples\<close>

text \<open>
  The first-run defaults of \<^verbatim>\<open>loadConfiguration\<close> and the initial values of the
  globals, with the relay driven low by \<^verbatim>\<open>setup\<close>.
\<close>

definition defaultConfig :: Config where
  "defaultConfig =
     \<lparr>timeout = 5000, debounceDelay = 200, btnDebounce = 300, maxPersons = 99,
      emergencyOverride = False\<rparr>"

definition initState :: "Config \<Rightarrow> state" where
  "initState c =
     \<lparr>config = c, personCount = 0, currentState = IDLE, stateTime = 0,
      lastSensorActivity = 0, lastEmergencyCheck = 0, ir1Stuck = False, ir2Stuck = False,
      configMode = False, configStartTime = 0, configParam = 0, configModeEntered = False,
      lastResetBtnTime = 0, lastPlusBtnTime = 0, bothPressed = False, pressStartTime = 0,
      exitPressed = False, exitPressTime = 0, healthInit = False, lastIr1State = False,
      lastIr2State = False, ir1ChangeTime = 0, ir2ChangeTime = 0, lastPlusTime = 0,
      lastResetTime = 0, lastDisplayUpdate = 0, relay = False, eeprom = Some c, trace = []\<rparr>"

definition idlePins :: pins where
  "idlePins = \<lparr>ir1 = False, ir2 = False, plusBtn = False, resetBtn = False, emergency = False\<rparr>"

definition bothHeld :: pins where
  "bothHeld = idlePins\<lparr>plusBtn := True, resetBtn := True\<rparr>"

text \<open>The resolver waiting for the second edge: first edge seen at \<open>t0\<close>, count \<open>n\<close>.\<close>

definition firstEdge :: "SensorState \<Rightarrow> u32 \<Rightarrow> i16 \<Rightarrow> state" where
  "firstEdge origin t0 n =
     (initState defaultConfig)\<lparr>currentState := origin, stateTime := t0, personCount := n\<rparr>"

definition plusHeld :: pins where
  "plusHeld = idlePins\<lparr>plusBtn := True\<rparr>"

definition emergencyHeld :: pins where
  "emergencyHeld = idlePins\<lparr>emergency := True\<rparr>"

text \<open>Normal operation with the defaults and \<open>n\<close> persons counted.\<close>

definition counted :: "i16 \<Rightarrow> state" where
  "counted n = (initState defaultConfig)\<lparr>personCount := n\<rparr>"

text \<open>An active configuration session editing parameter \<open>prm\<close>, entered at time 0.\<close>

definition session :: "Config \<Rightarrow> i16 \<Rightarrow> state" where
  "session c prm = (initState c)\<lparr>configMode := True, configParam := prm\<rparr>"

text \<open>Normal operation with the override set and the light forced on, last sampled at 1000.\<close>

definition overridden :: state where
  "overridden =
     (initState (defaultConfig\<lparr>emergencyOverride := True\<rparr>))
       \<lparr>relay := True, lastEmergencyCheck := 1000\<rparr>"

text \<open>Normal operation with capacity \<open>cap\<close> and \<open>n\<close> persons counted.\<close>

definition room :: "i16 \<Rightarrow> i16 \<Rightarrow> state" where
  "room cap n = (initState (defaultConfig\<lparr>maxPersons := cap\<rparr>))\<lparr>personCount := n\<rparr>"

text \<open>
  A configuration session editing parameter \<open>prm\<close>, with capacity \<open>cap\<close> and \<open>n\<close>
  persons counted.
\<close>

definition editing :: "i16 \<Rightarrow> i16 \<Rightarrow> i16 \<Rightarrow> state" where
  "editing cap prm n = (room cap n)\<lparr>configMode := True, configParam := prm\<rparr>"

section \<open>Auxiliary facts\<close>

lemmas io_defs = emit_def saveConfiguration_def updateDisplay_def showStatus_def showError_def
  digitalWriteRelay_def updateLight_def showConfigMode_def showEmergencyStatus_def
  updateConfigDisplay_def

lemmas input_defs = steady_def idlePins_def bothHeld_def plusHeld_def emergencyHeld_def
  session_def overridden_def counted_def room_def editing_def initState_def defaultConfig_def
  firstEdge_def

lemma displayEffects_trace [simp]: "displayEffects (s\<lparr>trace := tr\<rparr>) = displayEffects s"
  by (simp add: displayEffects_def)

lemma sint_inc:
  fixes x y :: i16
  assumes "x <s y"
  shows "sint (x + 1) = sint x + 1"
proof -
  have "sint x < sint y" using assms by (simp add: word_sless_alt)
  moreover have "sint y < 2 ^ 15" using sint_lt [of y] by simp
  moreover have "- (2 ^ 15) \<le> sint x" using sint_ge [of x] by simp
  ultimately have "- (2 ^ 15) \<le> sint x + 1 \<and> sint x + 1 < 2 ^ 15" by arith
  then have "signed_take_bit 15 (sint x + 1) = sint x + 1"
    by (simp add: signed_take_bit_int_eq_self)
  then show ?thesis by (simp add: sint_word_ariths)
qed

lemma sint_dec:
  fixes x :: i16
  assumes "0 <s x"
  shows "sint (x - 1) = sint x - 1"
proof -
  have "0 < sint x" using assms by (simp add: word_sless_alt)
  moreover have "sint x < 2 ^ 15" using sint_lt [of x] by simp
  ultimately have "- (2 ^ 15) \<le> sint x - 1 \<and> sint x - 1 < 2 ^ 15" by arith
  then have "signed_take_bit 15 (sint x - 1) = sint x - 1"
    by (simp add: signed_take_bit_int_eq_self)
  then show ?thesis by (simp add: sint_word_ariths)
qed

text \<open>What each function leaves alone, and what it does to the count and the relay.\<close>

lemma io_config [simp]:
  "config (emit es s) = config s"
  "config (updateDisplay s) = config s"
  "config (showStatus st s) = config s"
  "config (showError err s) = config s"
  "config (showConfigMode s) = config s"
  "config (showEmergencyStatus s) = config s"
  "config (updateConfigDisplay s) = config s"
  "config (digitalWriteRelay lvl s) = config s"
  "config (updateLight s) = config s"
  by (simp_all add: io_defs)

lemma io_personCount [simp]:
  "personCount (emit es s) = personCount s"
  "personCount (updateDisplay s) = personCount s"
  "personCount (showStatus st s) = personCount s"
  "personCount (showError err s) = personCount s"
  "personCount (showConfigMode s) = personCount s"
  "personCount (showEmergencyStatus s) = personCount s"
  "personCount (updateConfigDisplay s) = personCount s"
  "personCount (digitalWriteRelay lvl s) = personCount s"
  "personCount (updateLight s) = personCount s"
  "personCount (saveConfiguration s) = personCount s"
  by (simp_all add: io_defs)

lemma io_relay [simp]:
  "relay (emit es s) = relay s"
  "relay (updateDisplay s) = relay s"
  "relay (showStatus st s) = relay s"
  "relay (showError err s) = relay s"
  "relay (showConfigMode s) = relay s"
  "relay (showEmergencyStatus s) = relay s"
  "relay (updateConfigDisplay s) = relay s"
  "relay (digitalWriteRelay lvl s) = lvl"
  "relay (updateLight s) = (emergencyOverride (config s) \<or> 0 <s personCount s)"
  "relay (saveConfiguration s) = relay s"
  by (simp_all add: io_defs)

lemma action_config [simp]:
  "config (personEntered s) = config s"
  "config (personExited s) = config s"
  "config (manualIncrement s) = config s"
  "config (manualReset s) = config s"
  by (simp_all add: personEntered_def personExited_def manualIncrement_def manualReset_def Let_def)

lemma action_personCount [simp]:
  "personCount (personEntered s) = personCount s + 1"
  "personCount (personExited s) = personCount s - 1"
  "personCount (manualIncrement s) = personCount s + 1"
  "personCount (manualReset s) = 1"
  by (simp_all add: personEntered_def personExited_def manualIncrement_def manualReset_def Let_def)

lemma action_relay [simp]:
  "relay (personEntered s) = (emergencyOverride (config s) \<or> 0 <s personCount s + 1)"
  "relay (personExited s) = (emergencyOverride (config s) \<or> 0 <s personCount s - 1)"
  "relay (manualIncrement s) = (emergencyOverride (config s) \<or> 0 <s personCount s + 1)"
  "relay (manualReset s) = True"
  by (simp_all add: personEntered_def personExited_def manualIncrement_def manualReset_def Let_def
      word_sless_alt)

lemma config_handleDirectionDetection [simp]:
  "config (handleDirectionDetection a b t s) = config s"
  by (simp add: handleDirectionDetection_def Let_def split: SensorState.split)

lemma config_handleButtons [simp]:
  "config (handleButtons a b t s) = config s"
  by (simp add: handleButtons_def Let_def)

lemma config_checkSensorHealth [simp]:
  "config (checkSensorHealth p t s) = config s"
  by (simp add: checkSensorHealth_def Let_def)

lemma personCount_checkSensorHealth [simp]:
  "personCount (checkSensorHealth p t s) = personCount s"
  by (simp add: checkSensorHealth_def Let_def)

lemma relay_checkSensorHealth [simp]:
  "relay (checkSensorHealth p t s) = relay s"
  by (simp add: checkSensorHealth_def Let_def)

lemma checkConfigurationMode_frame [simp]:
  "config (checkConfigurationMode p t s) = config s"
  "personCount (checkConfigurationMode p t s) = personCount s"
  "relay (checkConfigurationMode p t s) = relay s"
  "lastEmergencyCheck (checkConfigurationMode p t s) = lastEmergencyCheck s"
  by (simp_all add: checkConfigurationMode_def showConfigMode_def emit_def)

lemma adjustConfigValue_frame [simp]:
  "personCount (adjustConfigValue s) = personCount s"
  "relay (adjustConfigValue s) = relay s"
  "emergencyOverride (config (adjustConfigValue s)) = emergencyOverride (config s)"
  "btnDebounce (config (adjustConfigValue s)) = btnDebounce (config s)"
  "maxPersons (config (adjustConfigValue s)) =
     (if configParam s = 2 then
        (if 200 <s maxPersons (config s) + 1 then 1 else maxPersons (config s) + 1)
      else maxPersons (config s))"
  by (simp_all add: adjustConfigValue_def Let_def)

lemma saveConfiguration_config [simp]: "config (saveConfiguration s) = config s"
  by (simp add: io_defs)

lemma handleConfigurationMode_frame [simp]:
  "personCount (handleConfigurationMode p t s) = personCount s"
  "relay (handleConfigurationMode p t s) = relay s"
  "emergencyOverride (config (handleConfigurationMode p t s)) = emergencyOverride (config s)"
  by (simp_all add: handleConfigurationMode_def Let_def)


lemma checkEmergencyOverride_frame [simp]:
  "personCount (checkEmergencyOverride p t s) = personCount s"
  "maxPersons (config (checkEmergencyOverride p t s)) = maxPersons (config s)"
  by (simp_all add: checkEmergencyOverride_def Let_def)

lemma checkEmergencyOverride_active:
  assumes "100 < t - lastEmergencyCheck s" and "emergency p"
  shows "emergencyOverride (config (checkEmergencyOverride p t s))"
    and "relay (checkEmergencyOverride p t s)"
  using assms by (simp_all add: checkEmergencyOverride_def Let_def)

lemma checkEmergencyOverride_released:
  assumes "100 < t - lastEmergencyCheck s" and "\<not> emergency p"
    and "emergencyOverride (config s)"
  shows "\<not> emergencyOverride (config (checkEmergencyOverride p t s))"
    and "relay (checkEmergencyOverride p t s) = (0 <s personCount s)"
  using assms by (simp_all add: checkEmergencyOverride_def Let_def)

lemma checkEmergencyOverride_idle:
  assumes "\<not> 100 < t - lastEmergencyCheck s"
  shows "checkEmergencyOverride p t s = s"
  using assms by (simp add: checkEmergencyOverride_def)



lemma relay_forced_handleDirectionDetection:
  assumes "emergencyOverride (config s)" and "relay s"
  shows "relay (handleDirectionDetection a b t s)"
  using assms by (simp add: handleDirectionDetection_def Let_def split: SensorState.split)

lemma relay_forced_handleButtons:
  assumes "emergencyOverride (config s)" and "relay s"
  shows "relay (handleButtons a b t s)"
  using assms by (simp add: handleButtons_def Let_def)

lemma relay_occupancy_handleDirectionDetection:
  assumes "\<not> emergencyOverride (config s)" and "relay s = (0 <s personCount s)"
  shows "relay (handleDirectionDetection a b t s)
           = (0 <s personCount (handleDirectionDetection a b t s))"
  using assms by (simp add: handleDirectionDetection_def Let_def split: SensorState.split)

lemma relay_occupancy_handleButtons:
  assumes "\<not> emergencyOverride (config s)" and "relay s = (0 <s personCount s)"
  shows "relay (handleButtons a b t s) = (0 <s personCount (handleButtons a b t s))"
  using assms by (simp add: handleButtons_def Let_def word_sless_alt)


lemma loop_session:
  assumes "configMode (checkConfigurationMode (atCheckConfig rd) t s)"
  shows "loop t rd s =
           handleConfigurationMode (atSession rd) t (checkConfigurationMode (atCheckConfig rd) t s)"
  using assms by (simp add: loop_def Let_def)

lemma loop_normal:
  assumes "\<not> configMode (checkConfigurationMode (atCheckConfig rd) t s)"
  obtains s4 where
    "personCount s4 = personCount s"
    "config s4 = config (checkEmergencyOverride (atEmergency rd) t s)"
    "relay s4 = relay (checkEmergencyOverride (atEmergency rd) t s)"
    "personCount (loop t rd s) =
       personCount (handleButtons (plusBtn (atLoop rd)) (resetBtn (atLoop rd)) t
         (handleDirectionDetection (ir1 (atLoop rd)) (ir2 (atLoop rd)) t s4))"
    "config (loop t rd s) = config s4"
    "relay (loop t rd s) =
       relay (handleButtons (plusBtn (atLoop rd)) (resetBtn (atLoop rd)) t
         (handleDirectionDetection (ir1 (atLoop rd)) (ir2 (atLoop rd)) t s4))"
proof
  let ?c = "checkConfigurationMode (atCheckConfig rd) t s"
  let ?s3 = "checkSensorHealth (atHealth rd) t (checkEmergencyOverride (atEmergency rd) t ?c)"
  let ?s4 = "if ir1 (atLoop rd) \<or> ir2 (atLoop rd) then ?s3\<lparr>lastSensorActivity := t\<rparr> else ?s3"
  have e: "config (checkEmergencyOverride (atEmergency rd) t ?c)
             = config (checkEmergencyOverride (atEmergency rd) t s)"
    "relay (checkEmergencyOverride (atEmergency rd) t ?c)
             = relay (checkEmergencyOverride (atEmergency rd) t s)"
    by (simp_all add: checkEmergencyOverride_def Let_def io_defs)
  show "personCount ?s4 = personCount s" by simp
  show "config ?s4 = config (checkEmergencyOverride (atEmergency rd) t s)" using e by simp
  show "relay ?s4 = relay (checkEmergencyOverride (atEmergency rd) t s)" using e by simp
  show "personCount (loop t rd s) =
       personCount (handleButtons (plusBtn (atLoop rd)) (resetBtn (atLoop rd)) t
         (handleDirectionDetection (ir1 (atLoop rd)) (ir2 (atLoop rd)) t ?s4))"
    using assms by (simp add: loop_def Let_def)
  show "config (loop t rd s) = config ?s4"
    using assms by (simp add: loop_def Let_def)
  show "relay (loop t rd s) =
       relay (handleButtons (plusBtn (atLoop rd)) (resetBtn (atLoop rd)) t
         (handleDirectionDetection (ir1 (atLoop rd)) (ir2 (atLoop rd)) t ?s4))"
    using assms by (simp add: loop_def Let_def)
qed

lemma unat_plus_small:
  fixes t k :: u32
  assumes "unat t + unat k < 2 ^ 32"
  shows "unat (t + k) = unat t + unat k"
  using assms by (simp add: unat_word_ariths)

lemma sint_plus_one:
  fixes m :: i16
  assumes "sint m + 1 < 2 ^ 15"
  shows "sint (m + 1) = sint m + 1"
proof -
  have "- (2 ^ 15) \<le> sint m" using sint_ge [of m] by simp
  with assms have "- (2 ^ 15) \<le> sint m + 1 \<and> sint m + 1 < 2 ^ 15" by arith
  then have "signed_take_bit 15 (sint m + 1) = sint m + 1"
    by (simp add: signed_take_bit_int_eq_self)
  then show ?thesis by (simp add: sint_word_ariths)
qed

lemma session_plus_press:
  assumes "plusBtn p" and "\<not> resetBtn p"
    and "currentTime - configStartTime s \<le> 30000"
    and "btnDebounce (config s) < currentTime - lastPlusBtnTime s"
  shows "config (handleConfigurationMode p currentTime s) = config (adjustConfigValue s)"
    and "eeprom (handleConfigurationMode p currentTime s) = Some (config (adjustConfigValue s))"
    and "trace (handleConfigurationMode p currentTime s) =
           trace s @ EepromPut (config (adjustConfigValue s))
             # drop (Suc (length (trace s))) (trace (handleConfigurationMode p currentTime s))"
proof -
  have n: "\<not> 30000 < currentTime - configStartTime s"
    using assms(3) by simp
  show "config (handleConfigurationMode p currentTime s) = config (adjustConfigValue s)"
    using assms(1,2,4) n
    by (simp add: handleConfigurationMode_def Let_def adjustConfigValue_def)
  show "eeprom (handleConfigurationMode p currentTime s) = Some (config (adjustConfigValue s))"
    using assms(1,2,4) n
    by (simp add: handleConfigurationMode_def Let_def io_defs adjustConfigValue_def)
  show "trace (handleConfigurationMode p currentTime s) =
           trace s @ EepromPut (config (adjustConfigValue s))
             # drop (Suc (length (trace s))) (trace (handleConfigurationMode p currentTime s))"
    using assms(1,2,4) n
    by (simp add: handleConfigurationMode_def Let_def io_defs adjustConfigValue_def)
qed

lemma adjust_timeout:
  assumes "configParam s = 0" and "unat (timeout (config s)) + 100 < 2 ^ 32"
  shows "config (adjustConfigValue s) = (config s)\<lparr>timeout := timeout (config (adjustConfigValue s))\<rparr>"
    and "unat (timeout (config (adjustConfigValue s))) =
          (if unat (timeout (config s)) + 100 > 10000 then 100 else unat (timeout (config s)) + 100)"
proof -
  have u: "unat (timeout (config s) + 100) = unat (timeout (config s)) + 100"
    using unat_plus_small [of "timeout (config s)" 100] assms(2) by simp
  show "config (adjustConfigValue s) = (config s)\<lparr>timeout := timeout (config (adjustConfigValue s))\<rparr>"
    using assms(1) by (simp add: adjustConfigValue_def Let_def)
  show "unat (timeout (config (adjustConfigValue s))) =
          (if unat (timeout (config s)) + 100 > 10000 then 100 else unat (timeout (config s)) + 100)"
    using assms(1) u by (simp add: adjustConfigValue_def Let_def word_less_nat_alt)
qed

lemma adjust_debounce:
  assumes "configParam s = 1" and "unat (debounceDelay (config s)) + 50 < 2 ^ 32"
  shows "config (adjustConfigValue s) = (config s)\<lparr>debounceDelay := debounceDelay (config (adjustConfigValue s))\<rparr>"
    and "unat (debounceDelay (config (adjustConfigValue s))) =
          (if unat (debounceDelay (config s)) + 50 > 1000 then 50 else unat (debounceDelay (config s)) + 50)"
proof -
  have u: "unat (debounceDelay (config s) + 50) = unat (debounceDelay (config s)) + 50"
    using unat_plus_small [of "debounceDelay (config s)" 50] assms(2) by simp
  show "config (adjustConfigValue s) = (config s)\<lparr>debounceDelay := debounceDelay (config (adjustConfigValue s))\<rparr>"
    using assms(1) by (simp add: adjustConfigValue_def Let_def)
  show "unat (debounceDelay (config (adjustConfigValue s))) =
          (if unat (debounceDelay (config s)) + 50 > 1000 then 50 else unat (debounceDelay (config s)) + 50)"
    using assms(1) u by (simp add: adjustConfigValue_def Let_def word_less_nat_alt)
qed

lemma adjust_maxPersons:
  assumes "configParam s = 2" and "sint (maxPersons (config s)) + 1 < 2 ^ 15"
  shows "config (adjustConfigValue s) = (config s)\<lparr>maxPersons := maxPersons (config (adjustConfigValue s))\<rparr>"
    and "sint (maxPersons (config (adjustConfigValue s))) =
          (if sint (maxPersons (config s)) + 1 > 200 then 1 else sint (maxPersons (config s)) + 1)"
proof -
  have u: "sint (maxPersons (config s) + 1) = sint (maxPersons (config s)) + 1"
    using sint_plus_one assms(2) by simp
  show "config (adjustConfigValue s) = (config s)\<lparr>maxPersons := maxPersons (config (adjustConfigValue s))\<rparr>"
    using assms(1) by (simp add: adjustConfigValue_def Let_def)
  show "sint (maxPersons (config (adjustConfigValue s))) =
          (if sint (maxPersons (config s)) + 1 > 200 then 1 else sint (maxPersons (config s)) + 1)"
    using assms(1) u by (simp add: word_sless_alt)
qed

lemma times_frame [simp]:
  "lastPlusTime (manualIncrement s) = lastPlusTime s"
  "lastPlusTime (showError err s) = lastPlusTime s"
  "lastResetTime (manualReset s) = lastResetTime s"
  by (simp_all add: manualIncrement_def manualReset_def Let_def io_defs)

lemma handleButtons_plus:
  "handleButtons True False t s =
     (if btnDebounce (config s) < t - lastPlusTime s then
        (if personCount s <s maxPersons (config s) then manualIncrement s
         else showError ''MAX PERSONS'' s)\<lparr>lastPlusTime := t\<rparr>
      else s)"
  by (simp add: handleButtons_def)

lemma handleButtons_reset:
  "handleButtons False True t s =
     (if btnDebounce (config s) < t - lastResetTime s then (manualReset s)\<lparr>lastResetTime := t\<rparr>
      else s)"
  by (simp add: handleButtons_def)

text \<open>
  The direction resolver does not read \<open>debounceDelay\<close>: changing it changes nothing
  in what the resolver does.
\<close>

lemma displayEffects_debounceDelay [simp]:
  "displayEffects (s\<lparr>config := (config s)\<lparr>debounceDelay := d\<rparr>\<rparr>) = displayEffects s"
  by (simp add: displayEffects_def)

lemma actions_ignore_debounceDelay:
  "personEntered (s\<lparr>config := (config s)\<lparr>debounceDelay := d\<rparr>\<rparr>) =
     (personEntered s)\<lparr>config := (config s)\<lparr>debounceDelay := d\<rparr>\<rparr>"
  "personExited (s\<lparr>config := (config s)\<lparr>debounceDelay := d\<rparr>\<rparr>) =
     (personExited s)\<lparr>config := (config s)\<lparr>debounceDelay := d\<rparr>\<rparr>"
  "showError err (s\<lparr>config := (config s)\<lparr>debounceDelay := d\<rparr>\<rparr>) =
     (showError err s)\<lparr>config := (config s)\<lparr>debounceDelay := d\<rparr>\<rparr>"
  by (simp_all add: personEntered_def personExited_def io_defs Let_def)

lemma handleDirectionDetection_ignores_debounceDelay:
  "handleDirectionDetection a b t (s\<lparr>config := (config s)\<lparr>debounceDelay := d\<rparr>\<rparr>) =
     (handleDirectionDetection a b t s)\<lparr>config := (config s)\<lparr>debounceDelay := d\<rparr>\<rparr>"
proof (cases "currentState s")
  case IDLE
  then show ?thesis by (simp add: handleDirectionDetection_def)
next
  case IR1_DETECTED
  then show ?thesis by (simp add: handleDirectionDetection_def actions_ignore_debounceDelay)
next
  case IR2_DETECTED
  then show ?thesis by (simp add: handleDirectionDetection_def actions_ignore_debounceDelay)
next
  case ENTRY_DETECTED
  then show ?thesis by (simp add: handleDirectionDetection_def)
next
  case EXIT_DETECTED
  then show ?thesis by (simp add: handleDirectionDetection_def)
qed

text \<open>
  In a session, an iteration that finds both buttons pressed, with the dual press
  already recorded and between 500 and 2000 ms old, leaves the session and stores the
  configuration, whether or not the buttons are released afterwards.
\<close>

lemma dual_press_exits_while_held:
  assumes "plusBtn p" and "resetBtn p" and "exitPressed s"
    and "500 \<le> t - exitPressTime s" and "t - exitPressTime s < 2000"
  shows "\<not> configMode (handleConfigurationMode p t s)"
    and "eeprom (handleConfigurationMode p t s) = Some (config s)"
  using assms by (simp_all add: handleConfigurationMode_def Let_def io_defs)

section \<open>Direction resolver\<close>

text \<open>
  C2. In state \<^verbatim>\<open>IR1_DETECTED\<close> (first edge on the entry sensor at \<open>stateTime\<close>), when
  the exit sensor is active and \<open>currentTime - stateTime < timeout\<close>: if
  \<open>personCount < maxPersons\<close> the count goes up by exactly one (also as a signed
  number, there is no overflow), the status \<^verbatim>\<open>IN\<close> is shown, the light is recomputed
  and "Person Entered!" is written to the serial line; if \<open>personCount = maxPersons\<close>
  the count is unchanged and the \<^verbatim>\<open>MAX PERSONS\<close> error is shown instead (the
  display is cleared, shows \<^verbatim>\<open>ERROR: MAX PERSONS\<close> and \<^verbatim>\<open>Check sensors\<close> for
  2000 ms and is then redrawn), with nothing written to the serial line; in both
  cases the resolver is back in \<^verbatim>\<open>IDLE\<close>. The effects are given in full.
\<close>

theorem entry_pairing_within_timeout:
  assumes "currentState s = IR1_DETECTED"
    and "currentTime - stateTime s < timeout (config s)"
  shows "(personCount s <s maxPersons (config s) \<longrightarrow>
            handleDirectionDetection ir1State True currentTime s =
              s\<lparr>personCount := personCount s + 1,
                relay := (emergencyOverride (config s) \<or> 0 <s personCount s + 1),
                trace := trace s
                  @ [LcdSetCursor 13 0, LcdPrint ''IN'', Delay 500, LcdSetCursor 13 0,
                     LcdPrint ''   '',
                     RelayWrite (emergencyOverride (config s) \<or> 0 <s personCount s + 1),
                     SerialPrint ''Person Entered! Count: '',
                     SerialPrintlnInt (personCount s + 1)],
                currentState := IDLE\<rparr>
            \<and> sint (personCount s + 1) = sint (personCount s) + 1)
       \<and> (personCount s = maxPersons (config s) \<longrightarrow>
            handleDirectionDetection ir1State True currentTime s =
              s\<lparr>trace := trace s
                  @ [LcdClear, LcdPrint ''ERROR: '', LcdPrint ''MAX PERSONS'', LcdSetCursor 0 1,
                     LcdPrint ''Check sensors'', Delay 2000,
                     LcdClear, LcdSetCursor 0 0, LcdPrint ''Persons: '',
                     LcdPrintInt (personCount s), LcdSetCursor 0 1]
                  @ (if emergencyOverride (config s) then [LcdPrint ''Light: EMER ON'']
                     else [LcdPrint ''Light: '',
                           if 0 <s personCount s then LcdPrint ''ON '' else LcdPrint ''OFF''])
                  @ (if ir1Stuck s \<or> ir2Stuck s then [LcdSetCursor 12 0, LcdPrint ''ERR'']
                     else []),
                currentState := IDLE\<rparr>)
       \<and> currentState (handleDirectionDetection ir1State True currentTime s) = IDLE"
  using assms
  by (simp add: handleDirectionDetection_def personEntered_def io_defs sint_inc
      statusEffects_def errorEffects_def displayEffects_def)

text \<open>
  The scenario of the specification (entry edge at 0, exit sensor active at 300,
  timeout 5000, capacity 99, count 0) gives count 1, the light on and the "Person
  Entered!" line; at count 99 the count stays 99 and the display shows
  \<^verbatim>\<open>ERROR: MAX PERSONS\<close> for two seconds before it is redrawn.
\<close>

theorem entry_pairing_within_timeout_witness:
  "personCount (handleDirectionDetection False True 300 (firstEdge IR1_DETECTED 0 0)) = 1
   \<and> relay (handleDirectionDetection False True 300 (firstEdge IR1_DETECTED 0 0))
   \<and> currentState (handleDirectionDetection False True 300 (firstEdge IR1_DETECTED 0 0)) = IDLE
   \<and> trace (handleDirectionDetection False True 300 (firstEdge IR1_DETECTED 0 0)) =
       [LcdSetCursor 13 0, LcdPrint ''IN'', Delay 500, LcdSetCursor 13 0, LcdPrint ''   '',
        RelayWrite True, SerialPrint ''Person Entered! Count: '', SerialPrintlnInt 1]
   \<and> personCount (handleDirectionDetection False True 300 (firstEdge IR1_DETECTED 0 99)) = 99
   \<and> currentState (handleDirectionDetection False True 300 (firstEdge IR1_DETECTED 0 99)) = IDLE
   \<and> trace (handleDirectionDetection False True 300 (firstEdge IR1_DETECTED 0 99)) =
       [LcdClear, LcdPrint ''ERROR: '', LcdPrint ''MAX PERSONS'', LcdSetCursor 0 1,
        LcdPrint ''Check sensors'', Delay 2000,
        LcdClear, LcdSetCursor 0 0, LcdPrint ''Persons: '', LcdPrintInt 99, LcdSetCursor 0 1,
        LcdPrint ''Light: '', LcdPrint ''ON '']"
proof -
  have a: "currentState (firstEdge IR1_DETECTED 0 0) = IR1_DETECTED"
    and b: "300 - stateTime (firstEdge IR1_DETECTED 0 0)
              < timeout (config (firstEdge IR1_DETECTED 0 0))"
    and c: "personCount (firstEdge IR1_DETECTED 0 0)
              <s maxPersons (config (firstEdge IR1_DETECTED 0 0))"
    by (simp_all add: input_defs word_sless_alt)
  have a': "currentState (firstEdge IR1_DETECTED 0 99) = IR1_DETECTED"
    and b': "300 - stateTime (firstEdge IR1_DETECTED 0 99)
              < timeout (config (firstEdge IR1_DETECTED 0 99))"
    and c': "personCount (firstEdge IR1_DETECTED 0 99)
              = maxPersons (config (firstEdge IR1_DETECTED 0 99))"
    by (simp_all add: input_defs)
  have "personCount (handleDirectionDetection False True 300 (firstEdge IR1_DETECTED 0 0)) = 1
   \<and> relay (handleDirectionDetection False True 300 (firstEdge IR1_DETECTED 0 0))
   \<and> currentState (handleDirectionDetection False True 300 (firstEdge IR1_DETECTED 0 0)) = IDLE
   \<and> trace (handleDirectionDetection False True 300 (firstEdge IR1_DETECTED 0 0)) =
       [LcdSetCursor 13 0, LcdPrint ''IN'', Delay 500, LcdSetCursor 13 0, LcdPrint ''   '',
        RelayWrite True, SerialPrint ''Person Entered! Count: '', SerialPrintlnInt 1]"
    using entry_pairing_within_timeout [OF a b, of False] c
    by (simp add: input_defs word_sless_alt)
  moreover
  have "personCount (handleDirectionDetection False True 300 (firstEdge IR1_DETECTED 0 99)) = 99
   \<and> currentState (handleDirectionDetection False True 300 (firstEdge IR1_DETECTED 0 99)) = IDLE
   \<and> trace (handleDirectionDetection False True 300 (firstEdge IR1_DETECTED 0 99)) =
       [LcdClear, LcdPrint ''ERROR: '', LcdPrint ''MAX PERSONS'', LcdSetCursor 0 1,
        LcdPrint ''Check sensors'', Delay 2000,
        LcdClear, LcdSetCursor 0 0, LcdPrint ''Persons: '', LcdPrintInt 99, LcdSetCursor 0 1,
        LcdPrint ''Light: '', LcdPrint ''ON '']"
    using entry_pairing_within_timeout [OF a' b', of False] c'
    by (simp add: input_defs word_sless_alt)
  ultimately show ?thesis by simp
qed

text \<open>
  C8. In state \<^verbatim>\<open>IR2_DETECTED\<close> (first edge on the exit sensor), when the entry sensor
  is active and \<open>currentTime - stateTime < timeout\<close>: if \<open>personCount > 0\<close> the count
  goes down by exactly one, the status \<^verbatim>\<open>OUT\<close> is shown, the light is recomputed and
  "Person Exited!" is written to the serial line; if \<open>personCount = 0\<close> nothing happens
  but the return to \<^verbatim>\<open>IDLE\<close>: the count stays 0 and the trace of effects is
  unchanged; in both cases the resolver is back in \<^verbatim>\<open>IDLE\<close>.
\<close>

theorem exit_pairing_within_timeout:
  assumes "currentState s = IR2_DETECTED"
    and "currentTime - stateTime s < timeout (config s)"
  shows "(0 <s personCount s \<longrightarrow>
            handleDirectionDetection True ir2State currentTime s =
              s\<lparr>personCount := personCount s - 1,
                relay := (emergencyOverride (config s) \<or> 0 <s personCount s - 1),
                trace := trace s
                  @ [LcdSetCursor 13 0, LcdPrint ''OUT'', Delay 500, LcdSetCursor 13 0,
                     LcdPrint ''   '',
                     RelayWrite (emergencyOverride (config s) \<or> 0 <s personCount s - 1),
                     SerialPrint ''Person Exited! Count: '',
                     SerialPrintlnInt (personCount s - 1)],
                currentState := IDLE\<rparr>
            \<and> sint (personCount s - 1) = sint (personCount s) - 1)
       \<and> (personCount s = 0 \<longrightarrow>
            handleDirectionDetection True ir2State currentTime s = s\<lparr>currentState := IDLE\<rparr>)
       \<and> currentState (handleDirectionDetection True ir2State currentTime s) = IDLE"
  using assms
  by (simp add: handleDirectionDetection_def personExited_def io_defs sint_dec
      statusEffects_def)

text \<open>With the defaults, at counts 3 and 0.\<close>

theorem exit_pairing_within_timeout_witness:
  "personCount (handleDirectionDetection True False 300 (firstEdge IR2_DETECTED 0 3)) = 2
   \<and> currentState (handleDirectionDetection True False 300 (firstEdge IR2_DETECTED 0 3)) = IDLE
   \<and> handleDirectionDetection True False 300 (firstEdge IR2_DETECTED 0 0) =
       (firstEdge IR2_DETECTED 0 0)\<lparr>currentState := IDLE\<rparr>
   \<and> personCount (handleDirectionDetection True False 300 (firstEdge IR2_DETECTED 0 0)) = 0
   \<and> trace (handleDirectionDetection True False 300 (firstEdge IR2_DETECTED 0 0)) = []"
proof -
  have a: "currentState (firstEdge IR2_DETECTED 0 3) = IR2_DETECTED"
    and b: "300 - stateTime (firstEdge IR2_DETECTED 0 3)
              < timeout (config (firstEdge IR2_DETECTED 0 3))"
    and c: "0 <s personCount (firstEdge IR2_DETECTED 0 3)"
    by (simp_all add: firstEdge_def initState_def defaultConfig_def word_sless_alt)
  have a': "currentState (firstEdge IR2_DETECTED 0 0) = IR2_DETECTED"
    and b': "300 - stateTime (firstEdge IR2_DETECTED 0 0)
              < timeout (config (firstEdge IR2_DETECTED 0 0))"
    and c': "personCount (firstEdge IR2_DETECTED 0 0) = 0"
    by (simp_all add: firstEdge_def initState_def defaultConfig_def)
  from exit_pairing_within_timeout [OF a b, of False] c
  have "personCount (handleDirectionDetection True False 300 (firstEdge IR2_DETECTED 0 3)) =
          personCount (firstEdge IR2_DETECTED 0 3) - 1
        \<and> currentState (handleDirectionDetection True False 300 (firstEdge IR2_DETECTED 0 3))
            = IDLE"
    by simp
  moreover from exit_pairing_within_timeout [OF a' b', of False] c'
  have "handleDirectionDetection True False 300 (firstEdge IR2_DETECTED 0 0) =
          (firstEdge IR2_DETECTED 0 0)\<lparr>currentState := IDLE\<rparr>"
    by blast
  ultimately show ?thesis
    by (simp add: firstEdge_def initState_def defaultConfig_def)
qed

text \<open>
  C7, as the code has it. In a first-edge state with the pairing sensor not active, the
  resolver returns to \<^verbatim>\<open>IDLE\<close> exactly when \<open>currentTime - stateTime\<close> is strictly
  greater than the timeout, and then nothing but the state changes (no effect, count
  unchanged); up to and including \<open>currentTime - stateTime = timeout\<close> the call changes
  nothing at all, so the resolver is still in its first-edge state.
\<close>

theorem first_edge_timeout_strict:
  assumes "currentState s = IR1_DETECTED \<and> \<not> ir2State
           \<or> currentState s = IR2_DETECTED \<and> \<not> ir1State"
  shows "handleDirectionDetection ir1State ir2State currentTime s =
           (if currentTime - stateTime s > timeout (config s) then s\<lparr>currentState := IDLE\<rparr>
            else s)"
  using assms by (auto simp add: handleDirectionDetection_def)

text \<open>With the timeout of 5000: back to \<^verbatim>\<open>IDLE\<close> at 5001, unchanged at 5000.\<close>

theorem first_edge_timeout_strict_witness:
  "handleDirectionDetection False False 5001 (firstEdge IR1_DETECTED 0 0) =
     (firstEdge IR1_DETECTED 0 0)\<lparr>currentState := IDLE\<rparr>
   \<and> handleDirectionDetection False False 5000 (firstEdge IR1_DETECTED 0 0) =
       firstEdge IR1_DETECTED 0 0
   \<and> handleDirectionDetection False False 5001 (firstEdge IR2_DETECTED 0 0) =
       (firstEdge IR2_DETECTED 0 0)\<lparr>currentState := IDLE\<rparr>"
proof -
  have a: "currentState (firstEdge IR1_DETECTED 0 0) = IR1_DETECTED \<and> \<not> False
           \<or> currentState (firstEdge IR1_DETECTED 0 0) = IR2_DETECTED \<and> \<not> False"
    by (simp add: firstEdge_def initState_def)
  have b: "currentState (firstEdge IR2_DETECTED 0 0) = IR1_DETECTED \<and> \<not> False
           \<or> currentState (firstEdge IR2_DETECTED 0 0) = IR2_DETECTED \<and> \<not> False"
    by (simp add: firstEdge_def initState_def)
  show ?thesis
    using first_edge_timeout_strict [OF a, of 5001] first_edge_timeout_strict [OF a, of 5000]
      first_edge_timeout_strict [OF b, of 5001]
    by (simp add: firstEdge_def initState_def defaultConfig_def)
qed

text \<open>
  C7 as stated fails at the boundary: first edge on the entry sensor at 0, timeout
  5000, no sensor active at 5000. Then \<open>currentTime - stateTime = timeout\<close>, and the
  resolver is still in \<^verbatim>\<open>IR1_DETECTED\<close>.
\<close>

theorem first_edge_at_timeout_not_idle:
  "currentState (firstEdge IR1_DETECTED 0 0) = IR1_DETECTED
   \<and> 5000 - stateTime (firstEdge IR1_DETECTED 0 0) \<ge> timeout (config (firstEdge IR1_DETECTED 0 0))
   \<and> currentState (handleDirectionDetection False False 5000 (firstEdge IR1_DETECTED 0 0))
       = IR1_DETECTED"
  by (simp add: handleDirectionDetection_def firstEdge_def initState_def defaultConfig_def)

section \<open>Actuator policy\<close>

text \<open>
  C3. \<^verbatim>\<open>updateLight\<close> writes to the relay a level that is a function of
  \<open>emergencyOverride\<close> and \<open>personCount\<close> alone: on when the override is set, otherwise
  on exactly when \<open>personCount > 0\<close> (as a signed number; so off at 0). It changes
  nothing else in the state but the trace of effects, and calling it twice leaves the
  relay as calling it once does.
\<close>

theorem updateLight_policy:
  "updateLight s =
     s\<lparr>relay := (emergencyOverride (config s) \<or> 0 <s personCount s),
       trace := trace s @ [RelayWrite (emergencyOverride (config s) \<or> 0 <s personCount s)]\<rparr>
   \<and> relay (updateLight s) = (emergencyOverride (config s) \<or> 0 < sint (personCount s))
   \<and> relay (updateLight (s\<lparr>personCount := 0\<rparr>)) = emergencyOverride (config s)
   \<and> relay (updateLight (updateLight s)) = relay (updateLight s)"
  by (simp add: io_defs word_sless_alt)

section \<open>Emergency override\<close>

text \<open>
  C4, as the code has it. One iteration of the loop, by cases.
  Outside a configuration session, when the emergency input is sampled (more than
  100 ms since the last sample) and found active, \<open>emergencyOverride\<close> is set and the
  relay is on at the end of the iteration, whatever the sensors and buttons did in it.
  Outside a session and between two samples, a set override with the relay on stays so.
  Outside a session, when the sample finds the input inactive while the override is
  set, the override is cleared and the relay is recomputed from the occupancy: at the
  end of the iteration it is on exactly when \<open>personCount > 0\<close>.
  In a configuration session the emergency input is not sampled: the iteration leaves
  \<open>emergencyOverride\<close> and the relay as they were.
\<close>

theorem emergency_override_loop:
  "(\<not> configMode (checkConfigurationMode (atCheckConfig rd) t s)
      \<and> 100 < t - lastEmergencyCheck s \<and> emergency (atEmergency rd) \<longrightarrow>
      emergencyOverride (config (loop t rd s)) \<and> relay (loop t rd s))
   \<and> (\<not> configMode (checkConfigurationMode (atCheckConfig rd) t s)
      \<and> \<not> 100 < t - lastEmergencyCheck s \<and> emergencyOverride (config s) \<and> relay s \<longrightarrow>
      emergencyOverride (config (loop t rd s)) \<and> relay (loop t rd s))
   \<and> (\<not> configMode (checkConfigurationMode (atCheckConfig rd) t s)
      \<and> 100 < t - lastEmergencyCheck s \<and> \<not> emergency (atEmergency rd)
      \<and> emergencyOverride (config s) \<longrightarrow>
      \<not> emergencyOverride (config (loop t rd s))
      \<and> relay (loop t rd s) = (0 <s personCount (loop t rd s)))
   \<and> (configMode (checkConfigurationMode (atCheckConfig rd) t s) \<longrightarrow>
      emergencyOverride (config (loop t rd s)) = emergencyOverride (config s)
      \<and> relay (loop t rd s) = relay s)"
proof (cases "configMode (checkConfigurationMode (atCheckConfig rd) t s)")
  case True
  then show ?thesis by (simp add: loop_session)
next
  case False
  from loop_normal [OF False] obtain s4 where
    s4: "personCount s4 = personCount s"
      "config s4 = config (checkEmergencyOverride (atEmergency rd) t s)"
      "relay s4 = relay (checkEmergencyOverride (atEmergency rd) t s)"
      "personCount (loop t rd s) =
         personCount (handleButtons (plusBtn (atLoop rd)) (resetBtn (atLoop rd)) t
           (handleDirectionDetection (ir1 (atLoop rd)) (ir2 (atLoop rd)) t s4))"
      "config (loop t rd s) = config s4"
      "relay (loop t rd s) =
         relay (handleButtons (plusBtn (atLoop rd)) (resetBtn (atLoop rd)) t
           (handleDirectionDetection (ir1 (atLoop rd)) (ir2 (atLoop rd)) t s4))"
    by blast
  let ?d = "handleDirectionDetection (ir1 (atLoop rd)) (ir2 (atLoop rd)) t s4"
  have forced: "emergencyOverride (config s4) \<Longrightarrow> relay s4 \<Longrightarrow>
                  emergencyOverride (config (loop t rd s)) \<and> relay (loop t rd s)"
    using relay_forced_handleDirectionDetection [of s4]
      relay_forced_handleButtons [of ?d]
    by (simp add: s4(5,6))
  have occ: "\<not> emergencyOverride (config s4) \<Longrightarrow> relay s4 = (0 <s personCount s4) \<Longrightarrow>
               \<not> emergencyOverride (config (loop t rd s))
               \<and> relay (loop t rd s) = (0 <s personCount (loop t rd s))"
    using relay_occupancy_handleDirectionDetection [of s4]
      relay_occupancy_handleButtons [of ?d]
    by (simp add: s4(4,5,6))
  have a: "100 < t - lastEmergencyCheck s \<Longrightarrow> emergency (atEmergency rd) \<Longrightarrow>
             emergencyOverride (config (loop t rd s)) \<and> relay (loop t rd s)"
    using forced checkEmergencyOverride_active [of t s "atEmergency rd"] by (simp add: s4(2,3))
  have b: "\<not> 100 < t - lastEmergencyCheck s \<Longrightarrow> emergencyOverride (config s) \<Longrightarrow> relay s \<Longrightarrow>
             emergencyOverride (config (loop t rd s)) \<and> relay (loop t rd s)"
    using forced checkEmergencyOverride_idle [of t s "atEmergency rd"] by (simp add: s4(2,3))
  have c: "100 < t - lastEmergencyCheck s \<Longrightarrow> \<not> emergency (atEmergency rd) \<Longrightarrow>
             emergencyOverride (config s) \<Longrightarrow>
             \<not> emergencyOverride (config (loop t rd s))
             \<and> relay (loop t rd s) = (0 <s personCount (loop t rd s))"
    using occ checkEmergencyOverride_released [of t s "atEmergency rd"] by (simp add: s4(1,2,3))
  from False a b c show ?thesis by blast
qed

text \<open>
  The four cases at concrete inputs: the switch closed at the first sample of a fresh
  system; the +1 button held between two samples while the override is set; the
  switch found open at the next sample; the switch closed during a session.
\<close>

theorem emergency_override_loop_witness:
  "emergencyOverride (config (loop 1000 (steady emergencyHeld) (initState defaultConfig)))
   \<and> relay (loop 1000 (steady emergencyHeld) (initState defaultConfig))
   \<and> emergencyOverride (config (loop 1050 (steady plusHeld) overridden))
   \<and> relay (loop 1050 (steady plusHeld) overridden)
   \<and> \<not> emergencyOverride (config (loop 1101 (steady idlePins) overridden))
   \<and> relay (loop 1101 (steady idlePins) overridden)
       = (0 <s personCount (loop 1101 (steady idlePins) overridden))
   \<and> emergencyOverride (config (loop 1000 (steady emergencyHeld) (session defaultConfig 0)))
       = emergencyOverride (config (session defaultConfig 0))
   \<and> relay (loop 1000 (steady emergencyHeld) (session defaultConfig 0))
       = relay (session defaultConfig 0)"
proof -
  have a: "\<not> configMode (checkConfigurationMode (atCheckConfig (steady emergencyHeld)) 1000
                (initState defaultConfig))
           \<and> 100 < 1000 - lastEmergencyCheck (initState defaultConfig)
           \<and> emergency (atEmergency (steady emergencyHeld))"
    by (simp add: checkConfigurationMode_def input_defs)
  have b: "\<not> configMode (checkConfigurationMode (atCheckConfig (steady plusHeld)) 1050 overridden)
           \<and> \<not> 100 < 1050 - lastEmergencyCheck overridden
           \<and> emergencyOverride (config overridden) \<and> relay overridden"
    by (simp add: checkConfigurationMode_def input_defs)
  have c: "\<not> configMode (checkConfigurationMode (atCheckConfig (steady idlePins)) 1101 overridden)
           \<and> 100 < 1101 - lastEmergencyCheck overridden
           \<and> \<not> emergency (atEmergency (steady idlePins))
           \<and> emergencyOverride (config overridden)"
    by (simp add: checkConfigurationMode_def input_defs)
  have d: "configMode (checkConfigurationMode (atCheckConfig (steady emergencyHeld)) 1000
             (session defaultConfig 0))"
    by (simp add: checkConfigurationMode_def input_defs)
  have "emergencyOverride (config (loop 1000 (steady emergencyHeld) (initState defaultConfig)))
        \<and> relay (loop 1000 (steady emergencyHeld) (initState defaultConfig))"
    using emergency_override_loop [of "steady emergencyHeld" 1000 "initState defaultConfig"] a
    by simp
  moreover have "emergencyOverride (config (loop 1050 (steady plusHeld) overridden))
        \<and> relay (loop 1050 (steady plusHeld) overridden)"
    using emergency_override_loop [of "steady plusHeld" 1050 overridden] b
    by simp
  moreover have "\<not> emergencyOverride (config (loop 1101 (steady idlePins) overridden))
        \<and> relay (loop 1101 (steady idlePins) overridden)
            = (0 <s personCount (loop 1101 (steady idlePins) overridden))"
    using emergency_override_loop [of "steady idlePins" 1101 overridden] c
    by simp
  moreover have "emergencyOverride (config (loop 1000 (steady emergencyHeld) (session defaultConfig 0)))
          = emergencyOverride (config (session defaultConfig 0))
        \<and> relay (loop 1000 (steady emergencyHeld) (session defaultConfig 0))
          = relay (session defaultConfig 0)"
    using emergency_override_loop [of "steady emergencyHeld" 1000 "session defaultConfig 0"] d
    by simp
  ultimately show ?thesis by simp
qed

text \<open>
  C4 as stated fails during a configuration session: with the session active, the
  emergency switch closed and a sample due, the iteration leaves \<open>emergencyOverride\<close>
  false and the relay off.
\<close>

theorem emergency_ignored_in_session:
  "configMode (session defaultConfig 0)
   \<and> emergency (atEmergency (steady emergencyHeld))
   \<and> 100 < 1000 - lastEmergencyCheck (session defaultConfig 0)
   \<and> \<not> emergencyOverride (config (loop 1000 (steady emergencyHeld) (session defaultConfig 0)))
   \<and> \<not> relay (loop 1000 (steady emergencyHeld) (session defaultConfig 0))"
  by code_simp

section \<open>Occupancy bounds\<close>




section \<open>Configuration session: adjusting and leaving\<close>

text \<open>
  C9. In a configuration session, a +1 press that is taken (the reset button not
  pressed, the session not timed out, more than \<open>btnDebounce\<close> since the last +1
  press) writes the adjusted configuration to the EEPROM as its first effect, and the
  stored record is the new configuration. The edited parameter alone changes: the
  timeout goes up by 100 and becomes 100 when that exceeds 10000; the debounce delay
  goes up by 50 and becomes 50 when that exceeds 1000; the capacity goes up by 1 and
  becomes 1 when that exceeds 200. The sums are those of natural numbers and integers
  as long as the machine addition does not overflow.
\<close>

theorem session_plus_adjusts_and_persists:
  assumes "plusBtn p" and "\<not> resetBtn p"
    and "currentTime - configStartTime s \<le> 30000"
    and "btnDebounce (config s) < currentTime - lastPlusBtnTime s"
  shows "eeprom (handleConfigurationMode p currentTime s)
           = Some (config (handleConfigurationMode p currentTime s))
   \<and> trace (handleConfigurationMode p currentTime s) =
           trace s @ EepromPut (config (handleConfigurationMode p currentTime s))
             # drop (Suc (length (trace s))) (trace (handleConfigurationMode p currentTime s))
   \<and> (configParam s = 0 \<and> unat (timeout (config s)) + 100 < 2 ^ 32 \<longrightarrow>
        config (handleConfigurationMode p currentTime s) =
          (config s)\<lparr>timeout := timeout (config (handleConfigurationMode p currentTime s))\<rparr>
        \<and> unat (timeout (config (handleConfigurationMode p currentTime s))) =
            (if unat (timeout (config s)) + 100 > 10000 then 100
             else unat (timeout (config s)) + 100))
   \<and> (configParam s = 1 \<and> unat (debounceDelay (config s)) + 50 < 2 ^ 32 \<longrightarrow>
        config (handleConfigurationMode p currentTime s) =
          (config s)\<lparr>debounceDelay := debounceDelay (config (handleConfigurationMode p currentTime s))\<rparr>
        \<and> unat (debounceDelay (config (handleConfigurationMode p currentTime s))) =
            (if unat (debounceDelay (config s)) + 50 > 1000 then 50
             else unat (debounceDelay (config s)) + 50))
   \<and> (configParam s = 2 \<and> sint (maxPersons (config s)) + 1 < 2 ^ 15 \<longrightarrow>
        config (handleConfigurationMode p currentTime s) =
          (config s)\<lparr>maxPersons := maxPersons (config (handleConfigurationMode p currentTime s))\<rparr>
        \<and> sint (maxPersons (config (handleConfigurationMode p currentTime s))) =
            (if sint (maxPersons (config s)) + 1 > 200 then 1
             else sint (maxPersons (config s)) + 1))"
  using session_plus_press [OF assms] adjust_timeout [of s] adjust_debounce [of s]
    adjust_maxPersons [of s]
  by simp

text \<open>
  The boundary values of the specification: timeout 10000 to 100 (and 5000 to 5100),
  debounce 1000 to 50, capacity 200 to 1; each is stored at once.
\<close>

theorem session_plus_adjusts_and_persists_witness:
  "unat (timeout (config (handleConfigurationMode plusHeld 1000
       (session (defaultConfig\<lparr>timeout := 10000\<rparr>) 0)))) = 100
   \<and> unat (timeout (config (handleConfigurationMode plusHeld 1000
       (session defaultConfig 0)))) = 5100
   \<and> unat (debounceDelay (config (handleConfigurationMode plusHeld 1000
       (session (defaultConfig\<lparr>debounceDelay := 1000\<rparr>) 1)))) = 50
   \<and> sint (maxPersons (config (handleConfigurationMode plusHeld 1000
       (session (defaultConfig\<lparr>maxPersons := 200\<rparr>) 2)))) = 1
   \<and> eeprom (handleConfigurationMode plusHeld 1000
       (session (defaultConfig\<lparr>maxPersons := 200\<rparr>) 2))
       = Some (config (handleConfigurationMode plusHeld 1000
           (session (defaultConfig\<lparr>maxPersons := 200\<rparr>) 2)))"
proof -
  have h: "plusBtn plusHeld" "\<not> resetBtn plusHeld"
    "1000 - configStartTime (session c prm) \<le> 30000"
    "btnDebounce (config (session defaultConfig 0))
       < 1000 - lastPlusBtnTime (session defaultConfig 0)"
    "btnDebounce (config (session (defaultConfig\<lparr>timeout := 10000\<rparr>) 0))
       < 1000 - lastPlusBtnTime (session (defaultConfig\<lparr>timeout := 10000\<rparr>) 0)"
    "btnDebounce (config (session (defaultConfig\<lparr>debounceDelay := 1000\<rparr>) 1))
       < 1000 - lastPlusBtnTime (session (defaultConfig\<lparr>debounceDelay := 1000\<rparr>) 1)"
    "btnDebounce (config (session (defaultConfig\<lparr>maxPersons := 200\<rparr>) 2))
       < 1000 - lastPlusBtnTime (session (defaultConfig\<lparr>maxPersons := 200\<rparr>) 2)"
    for c prm
    by (simp_all add: input_defs)
  have p: "configParam (session c 0) = 0 \<and> configParam (session c 1) = 1
           \<and> configParam (session c 2) = 2" for c
    by (simp add: input_defs)
  have v: "unat (timeout (config (session (defaultConfig\<lparr>timeout := 10000\<rparr>) 0))) = 10000"
    "unat (timeout (config (session defaultConfig 0))) = 5000"
    "unat (debounceDelay (config (session (defaultConfig\<lparr>debounceDelay := 1000\<rparr>) 1))) = 1000"
    "sint (maxPersons (config (session (defaultConfig\<lparr>maxPersons := 200\<rparr>) 2))) = 200"
    by (simp_all add: input_defs)
  have "unat (timeout (config (handleConfigurationMode plusHeld 1000
          (session (defaultConfig\<lparr>timeout := 10000\<rparr>) 0)))) = 100"
    using session_plus_adjusts_and_persists [OF h(1) h(2) h(3) h(5)] p v(1) by simp
  moreover have "unat (timeout (config (handleConfigurationMode plusHeld 1000
          (session defaultConfig 0)))) = 5100"
    using session_plus_adjusts_and_persists [OF h(1) h(2) h(3) h(4)] p v(2) by simp
  moreover have "unat (debounceDelay (config (handleConfigurationMode plusHeld 1000
          (session (defaultConfig\<lparr>debounceDelay := 1000\<rparr>) 1)))) = 50"
    using session_plus_adjusts_and_persists [OF h(1) h(2) h(3) h(6)] p v(3) by simp
  moreover have "sint (maxPersons (config (handleConfigurationMode plusHeld 1000
          (session (defaultConfig\<lparr>maxPersons := 200\<rparr>) 2)))) = 1
     \<and> eeprom (handleConfigurationMode plusHeld 1000
          (session (defaultConfig\<lparr>maxPersons := 200\<rparr>) 2))
        = Some (config (handleConfigurationMode plusHeld 1000
            (session (defaultConfig\<lparr>maxPersons := 200\<rparr>) 2)))"
    using session_plus_adjusts_and_persists [OF h(1) h(2) h(3) h(7)] p v(4) by simp
  ultimately show ?thesis by simp
qed

text \<open>
  C6. The code leaves the session as soon as an iteration finds both buttons pressed
  with the dual press between 500 and 2000 ms old; it does not wait for the release. In
  an active session with both buttons held from 0, the iteration at 500 already leaves
  the session and stores the configuration, so a press that goes on to last 2500 ms
  has ended the session, and the session is still ended when the buttons are released.
\<close>

theorem long_dual_press_exits_session:
  "configMode (session defaultConfig 0)
   \<and> \<not> configMode (run [(0, steady bothHeld), (500, steady bothHeld)] (session defaultConfig 0))
   \<and> eeprom (run [(0, steady bothHeld), (500, steady bothHeld)] (session defaultConfig 0))
       = Some defaultConfig
   \<and> \<not> configMode (run [(0, steady bothHeld), (500, steady bothHeld), (1000, steady bothHeld),
                       (1500, steady bothHeld), (2000, steady bothHeld), (2500, steady bothHeld),
                       (2510, steady idlePins)] (session defaultConfig 0))"
  by code_simp

section \<open>Manual buttons\<close>

text \<open>
  C10. Outside a session \<^verbatim>\<open>handleButtons\<close> looks at the level of a button and at
  the time since its last action only. With the +1 button held at \<open>t1\<close> (action due)
  and still held at \<open>t2\<close>, more than \<open>btnDebounce\<close> later, the manual increment is
  done twice and the count goes up by 2 when there is room for it; at the cap the
  \<^verbatim>\<open>MAX PERSONS\<close> error is shown twice instead. With the reset button held likewise
  the reset is done twice, the count being set to 1 each time. At a time \<open>t\<close> at most
  \<open>btnDebounce\<close> after \<open>t1\<close> the held button does nothing.
\<close>

theorem held_buttons_repeat:
  assumes p1: "btnDebounce (config s) < t1 - lastPlusTime s"
    and r1: "btnDebounce (config s) < t1 - lastResetTime s"
    and gap: "btnDebounce (config s) < t2 - t1"
  shows "(sint (personCount s) + 2 \<le> sint (maxPersons (config s)) \<longrightarrow>
            handleButtons True False t2 (handleButtons True False t1 s) =
              (manualIncrement ((manualIncrement s)\<lparr>lastPlusTime := t1\<rparr>))\<lparr>lastPlusTime := t2\<rparr>
            \<and> sint (personCount (handleButtons True False t2 (handleButtons True False t1 s)))
                = sint (personCount s) + 2)
       \<and> (personCount s = maxPersons (config s) \<longrightarrow>
            handleButtons True False t2 (handleButtons True False t1 s) =
              (showError ''MAX PERSONS''
                 ((showError ''MAX PERSONS'' s)\<lparr>lastPlusTime := t1\<rparr>))\<lparr>lastPlusTime := t2\<rparr>)
       \<and> handleButtons False True t2 (handleButtons False True t1 s) =
            (manualReset ((manualReset s)\<lparr>lastResetTime := t1\<rparr>))\<lparr>lastResetTime := t2\<rparr>
       \<and> personCount (handleButtons False True t2 (handleButtons False True t1 s)) = 1
       \<and> (t - t1 \<le> btnDebounce (config s) \<longrightarrow>
            handleButtons True False t (handleButtons True False t1 s)
              = handleButtons True False t1 s
            \<and> handleButtons False True t (handleButtons False True t1 s)
              = handleButtons False True t1 s)"
proof -
  let ?P1 = "handleButtons True False t1 s"
  let ?R1 = "handleButtons False True t1 s"
  have P1: "?P1 = (if personCount s <s maxPersons (config s) then manualIncrement s
                   else showError ''MAX PERSONS'' s)\<lparr>lastPlusTime := t1\<rparr>"
    using p1 by (simp add: handleButtons_plus)
  have R1: "?R1 = (manualReset s)\<lparr>lastResetTime := t1\<rparr>"
    using r1 by (simp add: handleButtons_reset)
  have P1t: "lastPlusTime ?P1 = t1" by (simp add: P1)
  have R1t: "lastResetTime ?R1 = t1" by (simp add: R1)
  have P2: "handleButtons True False t2 ?P1 =
              (if personCount ?P1 <s maxPersons (config s) then manualIncrement ?P1
               else showError ''MAX PERSONS'' ?P1)\<lparr>lastPlusTime := t2\<rparr>"
    using gap by (simp add: handleButtons_plus [of t2] P1t)
  have R2: "handleButtons False True t2 ?R1 = (manualReset ?R1)\<lparr>lastResetTime := t2\<rparr>"
    using gap by (simp add: handleButtons_reset [of t2] R1t)
  have room: "handleButtons True False t2 ?P1 =
                (manualIncrement ((manualIncrement s)\<lparr>lastPlusTime := t1\<rparr>))\<lparr>lastPlusTime := t2\<rparr>
              \<and> sint (personCount (handleButtons True False t2 ?P1)) = sint (personCount s) + 2"
    if h: "sint (personCount s) + 2 \<le> sint (maxPersons (config s))"
  proof -
    have lt: "personCount s <s maxPersons (config s)"
      using h by (simp add: word_sless_alt)
    have one: "sint (personCount s + 1) = sint (personCount s) + 1"
      using lt by (rule sint_inc)
    have P1': "?P1 = (manualIncrement s)\<lparr>lastPlusTime := t1\<rparr>"
      using lt by (simp add: P1)
    have c1: "personCount ?P1 = personCount s + 1" by (simp add: P1')
    have lt': "personCount ?P1 <s maxPersons (config s)"
      using h one by (simp add: c1 word_sless_alt)
    have two: "sint (personCount s + 1 + 1) = sint (personCount s + 1) + 1"
      using lt' c1 sint_inc [of "personCount s + 1" "maxPersons (config s)"] by simp
    have "handleButtons True False t2 ?P1 = (manualIncrement ?P1)\<lparr>lastPlusTime := t2\<rparr>"
      using lt' by (simp add: P2)
    then show ?thesis using one two by (simp add: P1')
  qed
  have cap: "handleButtons True False t2 ?P1 =
               (showError ''MAX PERSONS''
                 ((showError ''MAX PERSONS'' s)\<lparr>lastPlusTime := t1\<rparr>))\<lparr>lastPlusTime := t2\<rparr>"
    if h: "personCount s = maxPersons (config s)"
  proof -
    have P1': "?P1 = (showError ''MAX PERSONS'' s)\<lparr>lastPlusTime := t1\<rparr>"
      using h by (simp add: P1)
    have "\<not> personCount ?P1 <s maxPersons (config s)"
      using h by (simp add: P1')
    then have "handleButtons True False t2 ?P1 = (showError ''MAX PERSONS'' ?P1)\<lparr>lastPlusTime := t2\<rparr>"
      by (simp add: P2)
    then show ?thesis by (simp add: P1')
  qed
  have quiet: "handleButtons True False t ?P1 = ?P1 \<and> handleButtons False True t ?R1 = ?R1"
    if h: "t - t1 \<le> btnDebounce (config s)"
  proof -
    have "\<not> btnDebounce (config s) < t - t1" using h by simp
    then show ?thesis
      by (simp add: handleButtons_plus [of t] handleButtons_reset [of t] P1t R1t)
  qed
  have R2': "handleButtons False True t2 ?R1 =
               (manualReset ((manualReset s)\<lparr>lastResetTime := t1\<rparr>))\<lparr>lastResetTime := t2\<rparr>"
    using R2 by (simp only: R1)
  have "personCount (handleButtons False True t2 ?R1) = 1"
    by (simp add: R2)
  with room cap quiet R2' show ?thesis by blast
qed

text \<open>
  With the defaults (\<open>btnDebounce = 300\<close>): a button held at 1000 and 1301 acts
  twice, and does nothing at 1300.
\<close>

theorem held_buttons_repeat_witness:
  "sint (personCount (handleButtons True False 1301
       (handleButtons True False 1000 (initState defaultConfig)))) = 2
   \<and> personCount (handleButtons True False 1301
       (handleButtons True False 1000 (counted 99))) = 99
   \<and> personCount (handleButtons False True 1301
       (handleButtons False True 1000 (initState defaultConfig))) = 1
   \<and> handleButtons True False 1300 (handleButtons True False 1000 (initState defaultConfig))
       = handleButtons True False 1000 (initState defaultConfig)
   \<and> handleButtons False True 1300 (handleButtons False True 1000 (initState defaultConfig))
       = handleButtons False True 1000 (initState defaultConfig)"
proof -
  have h: "btnDebounce (config (initState defaultConfig))
             < 1000 - lastPlusTime (initState defaultConfig)"
    "btnDebounce (config (initState defaultConfig))
             < 1000 - lastResetTime (initState defaultConfig)"
    "btnDebounce (config (initState defaultConfig)) < 1301 - 1000"
    "sint (personCount (initState defaultConfig)) + 2
       \<le> sint (maxPersons (config (initState defaultConfig)))"
    "1300 - 1000 \<le> btnDebounce (config (initState defaultConfig))"
    by (simp_all add: input_defs)
  have k: "btnDebounce (config (counted 99)) < 1000 - lastPlusTime (counted 99)"
    "btnDebounce (config (counted 99)) < 1000 - lastResetTime (counted 99)"
    "btnDebounce (config (counted 99)) < 1301 - 1000"
    "personCount (counted 99) = maxPersons (config (counted 99))"
    "personCount (counted 99) = 99"
    by (simp_all add: input_defs)
  have "sint (personCount (handleButtons True False 1301
          (handleButtons True False 1000 (initState defaultConfig)))) = 2
        \<and> personCount (handleButtons False True 1301
          (handleButtons False True 1000 (initState defaultConfig))) = 1
        \<and> handleButtons True False 1300 (handleButtons True False 1000 (initState defaultConfig))
          = handleButtons True False 1000 (initState defaultConfig)
        \<and> handleButtons False True 1300 (handleButtons False True 1000 (initState defaultConfig))
          = handleButtons False True 1000 (initState defaultConfig)"
    using held_buttons_repeat [OF h(1) h(2) h(3), of 1300] h(4) h(5)
    by (simp add: input_defs)
  moreover have "personCount (handleButtons True False 1301
          (handleButtons True False 1000 (counted 99))) = 99"
    using held_buttons_repeat [OF k(1) k(2) k(3), of 1300] k(4) k(5)
    by simp
  ultimately show ?thesis by simp
qed

section \<open>Sensor samples\<close>

text \<open>
  C1. \<^verbatim>\<open>loop\<close> hands the raw sensor samples to the direction resolver in every
  iteration; \<open>debounceDelay\<close> is read nowhere but in the configuration display. With
  \<open>debounceDelay = 200\<close>: the exit sensor is active at 1000, the entry sensor is active
  at 1010 (an exit pairing at count 0, back to \<^verbatim>\<open>IDLE\<close>), and at 1020 the entry sensor
  is inactive again with the exit sensor active. The resolver acts on the entry
  sensor's sample of 1020, taken 10 ms after that sensor's change at 1010: it takes
  the exit sensor as a new first edge at 1020.
\<close>

theorem sensor_samples_not_debounced:
  "debounceDelay (config (initState defaultConfig)) = 200
   \<and> currentState (run [(1000, steady (idlePins\<lparr>ir2 := True\<rparr>)),
                       (1010, steady (idlePins\<lparr>ir1 := True\<rparr>)),
                       (1020, steady (idlePins\<lparr>ir2 := True\<rparr>))] (initState defaultConfig))
       = IR2_DETECTED
   \<and> stateTime (run [(1000, steady (idlePins\<lparr>ir2 := True\<rparr>)),
                       (1010, steady (idlePins\<lparr>ir1 := True\<rparr>)),
                       (1020, steady (idlePins\<lparr>ir2 := True\<rparr>))] (initState defaultConfig))
       = 1020"
  by code_simp

end
